theory Spec2Isabelle
  imports Main
begin

section \<open>The enclave of the fog-of-war game: data model\<close>

text \<open>
  The enclave server keeps its whole state in module-level variables and changes it only
  in its event handlers (connection messages, ledger events, block ticks). Each handler is
  embedded as a function from the state before the event to the state after it, paired
  with the list of things the handler did to the outside world, in the order it did them.

  The server imports the classes \<open>Tile\<close>, \<open>Player\<close>, \<open>Board\<close> and \<open>Utils\<close> from
  the game library, the Poseidon permutation, the ethers signer and the ledger contract;
  their code is not in the server. Their data is modelled by the records below (the
  fields the handlers read); their functions are the fields of the record \<open>env\<close>, so
  that every statement about a handler holds for whatever these functions compute.
\<close>

subsection \<open>Tiles, players, locations\<close>

text \<open>\<open>Location = { r, c }\<close>; the fields are called \<open>row\<close> and \<open>col\<close> here.\<close>

record location =
  row :: int
  col :: int

record player =
  symbol :: string
  address :: string

text \<open>
  A tile: the fields \<open>owner\<close>, \<open>loc\<close> and \<open>cityId\<close> are read by the handlers; the
  resource count and the terrain complete the tile as the data model describes it.
\<close>

record tile =
  owner :: player
  loc :: location
  resources :: int
  cityId :: nat
  terrain :: nat

text \<open>
  The Board object \<open>b\<close>: the grid \<open>b.t\<close> (here \<open>tiles\<close>) and the two derived indices
  \<open>b.cityTiles\<close> and \<open>b.playerCities\<close>. The indices are insertion-ordered collections;
  \<open>cityTiles\<close> stores each location as its JSON string, which the handlers parse back
  with \<open>JSON.parse\<close>: the model keeps the location itself.
\<close>

record board =
  tiles :: "tile list list"
  cityTiles :: "nat \<rightharpoonup> location list"
  playerCities :: "string \<rightharpoonup> nat list"

subsection \<open>Claims, envelopes, messages\<close>

record encryptedTile =
  esymbol :: string
  eaddress :: string
  ciphertext :: string
  iv :: string
  tag :: string

record claimedSpawn =
  prevTile :: tile
  spawnTile :: tile

record claimedMove =
  uFrom :: tile
  uTo :: tile
  blockSubmitted :: int
  uFromEnc :: encryptedTile
  uToEnc :: encryptedTile

text \<open>
  A tile as a client sends it (\<open>uFrom: any\<close>): the handler reads its \<open>address\<close>
  property and hands the whole object to \<open>Tile.fromJSON\<close>, whose result is the
  second field. A tile sent to a client (\<open>toJSON\<close>) is modelled by the tile itself.
\<close>

record tileJSON =
  jsonAddress :: string
  fromJSON :: tile

text \<open>The messages the server emits, by event name.\<close>

datatype message =
    LoginResponse "location list"
  | TrySpawn
  | SpawnSignatureResponse string tile tile
  | MoveSignatureResponse string int
  | DecryptResponse tile
  | UpdateDisplay "location list"
  | HandshakeDAResponse bool
  | SendRecoveredTile nat
  | SaveToDatabase encryptedTile

text \<open>
  What a handler does besides changing the state. \<open>Send target m\<close> is
  \<open>socket.emit\<close> (the target is the socket's own id) or \<open>io.to(target).emit\<close>; a
  target \<open>None\<close> is \<open>io.to(undefined)\<close>, a room no socket is in. \<open>Throw\<close> is an
  exception that leaves the handler. \<open>Disconnect sid\<close> is \<open>socket.disconnect()\<close>: the
  connection's \<open>disconnecting\<close> event follows, whose handler is \<open>disconnect\<close> below;
  every handler returns right after the call, so that teardown is the next event of the
  run.
\<close>

datatype effect =
    Disconnect string
  | Send "string option" message
  | Log string
  | Throw string

subsection \<open>What the handlers call but the sources do not define\<close>

record env =
  \<comment> \<open>class Tile\<close>
  hash :: "tile \<Rightarrow> string"
  isCapital :: "tile \<Rightarrow> bool"
  isCityCenter :: "tile \<Rightarrow> bool"
  mystery :: "location \<Rightarrow> tile"
  spawn :: "player \<Rightarrow> location \<Rightarrow> int \<Rightarrow> nat \<Rightarrow> tile"
  \<comment> \<open>class Board\<close>
  getTile :: "board \<Rightarrow> location \<Rightarrow> tile"
  setTile :: "board \<Rightarrow> tile \<Rightarrow> board"
  getNearbyLocations :: "board \<Rightarrow> location \<Rightarrow> location list"
  noFog :: "board \<Rightarrow> location \<Rightarrow> player \<Rightarrow> bool"
  isSpawned :: "board \<Rightarrow> player \<Rightarrow> bool"
  boardSpawn :: "board \<Rightarrow> location \<Rightarrow> player \<Rightarrow> int \<Rightarrow> nat \<Rightarrow> board"
  \<comment> \<open>\<open>Utils.encryptTile(key, tile)\<close>; the third argument is the number of encryptions
      made before this one, standing for the fresh randomness of each call\<close>
  encryptTile :: "string \<Rightarrow> tile \<Rightarrow> nat \<Rightarrow> string \<times> string \<times> string"
  \<comment> \<open>\<open>Utils.decryptTile(key, ciphertext, iv, tag)\<close>; \<open>None\<close> when it yields no tile\<close>
  decryptTile :: "string \<Rightarrow> string \<Rightarrow> string \<Rightarrow> string \<Rightarrow> tile option"
  \<comment> \<open>\<open>poseidonPerm(inputs)[0]\<close>, a field element\<close>
  poseidonPerm :: "int list \<Rightarrow> nat"
  \<comment> \<open>\<open>BigInt(s)\<close>; \<open>None\<close> when it throws\<close>
  bigInt :: "string \<Rightarrow> int option"
  \<comment> \<open>\<open>ethers.utils.verifyMessage(message, signature)\<close>; \<open>None\<close> when it throws\<close>
  verifyMessage :: "string \<Rightarrow> string \<Rightarrow> string option"
  \<comment> \<open>\<open>signer.signMessage\<close> of the keccak digest of three \<open>uint256\<close>\<close>
  signMessage :: "int \<Rightarrow> string \<Rightarrow> string \<Rightarrow> string"
  \<comment> \<open>views of the ledger contract\<close>
  getSpawnCommitment :: "string \<Rightarrow> int"
  getSpawnChallengeHash :: "string \<Rightarrow> nat"
  getBlockHash :: "int \<Rightarrow> int"
  \<comment> \<open>the \<open>hTile\<close> of every \<open>NewTile\<close> event the ledger has logged\<close>
  newTileHashes :: "string list"
  \<comment> \<open>process environment\<close>
  START_RESOURCES :: int
  CLAIMED_MOVE_LIFE_SPAN :: int

subsection \<open>The state of the enclave\<close>

text \<open>
  The module-level variables of the server. \<open>b\<close> is called \<open>board\<close> and the counter
  \<open>cityId\<close> is called \<open>nextCityId\<close> (a tile has a field \<open>cityId\<close> too).
  \<open>currentBlockHeight\<close> is declared without a value and is \<open>None\<close> until the first
  block event. \<open>encryptions\<close> counts the calls of \<open>Utils.encryptTile\<close> so far; it is the
  only component that is not a variable of the server.
\<close>

record state =
  inRecoveryMode :: bool
  board :: board
  nextCityId :: nat
  idToAddress :: "string \<rightharpoonup> string"
  addressToId :: "string \<rightharpoonup> string"
  claimedMoves :: "string \<rightharpoonup> claimedMove"
  claimedSpawns :: "string \<rightharpoonup> claimedSpawn"
  currentBlockHeight :: "int option"
  playerLatestBlock :: "string \<rightharpoonup> int"
  tileEncryptionKey :: string
  socketIdDA :: "string option"
  queuedTilesDA :: "encryptedTile list"
  recoveryModeIndex :: nat
  encryptions :: nat

section \<open>The handlers\<close>

text \<open>A JavaScript string is truthy unless it is empty.\<close>

definition truthy :: "string \<Rightarrow> bool" where
  "truthy x = (x \<noteq> [])"

text \<open>\<open>Set.add\<close> on an insertion-ordered set.\<close>

definition add :: "'a \<Rightarrow> 'a list \<Rightarrow> 'a list" where
  "add x xs = (if x \<in> set xs then xs else xs @ [x])"

text \<open>\<open>b.cityTiles.get(cityId)?.forEach\<close> and \<open>b.playerCities.get(address)?.forEach\<close>
  visit nothing when the key is missing.\<close>

definition cityLocs :: "board \<Rightarrow> nat \<Rightarrow> location list" where
  "cityLocs bd cid = (case cityTiles bd cid of None \<Rightarrow> [] | Some ls \<Rightarrow> ls)"

definition citiesOf :: "board \<Rightarrow> string \<Rightarrow> nat list" where
  "citiesOf bd a = (case playerCities bd a of None \<Rightarrow> [] | Some cs \<Rightarrow> cs)"

subsection \<open>The DA backup queue\<close>

definition enqueueTile :: "env \<Rightarrow> tile \<Rightarrow> state \<Rightarrow> encryptedTile \<times> state" where
  "enqueueTile e ti s =
     (case encryptTile e (tileEncryptionKey s) ti (encryptions s) of
        (ct, i, tg) \<Rightarrow>
          let enc = \<lparr>esymbol = symbol (owner ti), eaddress = address (owner ti),
                     ciphertext = ct, iv = i, tag = tg\<rparr>
          in (enc, s\<lparr>queuedTilesDA := queuedTilesDA s @ [enc],
                     encryptions := Suc (encryptions s)\<rparr>))"

definition dequeueTileIfDAConnected :: "state \<Rightarrow> state \<times> effect list" where
  "dequeueTileIfDAConnected s =
     (case socketIdDA s of
        None \<Rightarrow> (s, [])
      | Some da \<Rightarrow>
          (case queuedTilesDA s of
             [] \<Rightarrow> (s, [])
           | encTile # rest \<Rightarrow>
               (s\<lparr>queuedTilesDA := rest\<rparr>, [Send (Some da) (SaveToDatabase encTile)])))"

subsection \<open>login\<close>

text \<open>The locations a spawned player sees at login: the neighbourhoods of the tiles of
  the player's cities, collected in a set.\<close>

definition visibleTiles :: "env \<Rightarrow> board \<Rightarrow> string \<Rightarrow> location list" where
  "visibleTiles e bd a =
     foldl (\<lambda>acc cid.
        foldl (\<lambda>acc ti. foldl (\<lambda>acc l. add l acc) acc (getNearbyLocations e bd ti))
          acc (cityLocs bd cid))
       [] (citiesOf bd a)"

definition login :: "env \<Rightarrow> string \<Rightarrow> string \<Rightarrow> string \<Rightarrow> state \<Rightarrow> state \<times> effect list" where
  "login e sid addr sigStr s =
     (if inRecoveryMode s then (s, [Disconnect sid])
      else if addressToId s addr \<noteq> None then
        (s, [Log ''Address already logged on'', Disconnect sid])
      else
        (case verifyMessage e sid sigStr of
           None \<Rightarrow> (s, [Log (''Malignant signature '' @ sigStr), Disconnect sid])
         | Some sender \<Rightarrow>
             if \<not> truthy sender \<or> addr \<noteq> sender then
               (s, [Log ''Incorrect address given or bad signature'', Disconnect sid])
             else
               let s1 = s\<lparr>idToAddress := (idToAddress s)(sid \<mapsto> addr),
                          addressToId := (addressToId s)(addr \<mapsto> sid)\<rparr>
               in if isSpawned e (board s1) \<lparr>symbol = [], address = addr\<rparr> then
                    (s1\<lparr>playerLatestBlock := (playerLatestBlock s1)(addr \<mapsto> 0)\<rparr>,
                     [Send (Some sid) (LoginResponse (visibleTiles e (board s1) addr))])
                  else (s1, [Send (Some sid) TrySpawn])))"

subsection \<open>disconnect\<close>

definition disconnect :: "string \<Rightarrow> state \<Rightarrow> state \<times> effect list" where
  "disconnect sid s =
     (let s1 = (case idToAddress s sid of
                  None \<Rightarrow> s
                | Some a \<Rightarrow>
                    if truthy a then
                      s\<lparr>addressToId := (addressToId s)(a := None),
                        idToAddress := (idToAddress s)(sid := None)\<rparr>
                    else s);
          s2 = (if socketIdDA s1 = Some sid then s1\<lparr>socketIdDA := None\<rparr> else s1)
      in (s2, [Log (''Disconnected: '' @ sid)]))"

subsection \<open>getSpawnSignature\<close>

text \<open>
  The handler awaits three reads of the ledger and the signer; the model performs them
  at once. \<open>rawRow % BigInt(b.t.length)\<close> throws a RangeError when the grid has no row.
  The check of the challenge hash passes the secret string itself to the permutation,
  which reads it as the number \<open>BigInt\<close> gives.
\<close>

definition spawnLocation :: "env \<Rightarrow> int \<Rightarrow> int \<Rightarrow> nat \<Rightarrow> location" where
  "spawnLocation e playerChallenge commitBlockHash n =
     \<lparr>row = int (poseidonPerm e [0, playerChallenge, commitBlockHash, 0] mod n),
      col = int (poseidonPerm e [0, playerChallenge, commitBlockHash, 1] mod n)\<rparr>"

definition getSpawnSignature ::
  "env \<Rightarrow> string \<Rightarrow> string \<Rightarrow> string \<Rightarrow> string \<Rightarrow> string \<Rightarrow> state \<Rightarrow> state \<times> effect list" where
  "getSpawnSignature e sid symb addr sigStr playerSecret s =
     (case idToAddress s sid of
        None \<Rightarrow> (s, [Disconnect sid])
      | Some sender \<Rightarrow>
          if inRecoveryMode s \<or> \<not> truthy sender then (s, [Disconnect sid])
          else if claimedSpawns s sender \<noteq> None then
            (s, [Log ''Already committed to spawn'', Disconnect sid])
          else if claimedSpawns s addr \<noteq> None then
            (s, [Log ''Already committed to spawn'', Disconnect sid])
          else
            (case bigInt e playerSecret of
               None \<Rightarrow> (s, [Log (''Malignant secret:  '' @ sigStr), Disconnect sid])
             | Some playerChallenge \<Rightarrow>
                 let latestBlockCommited = getSpawnCommitment e addr;
                     hSecret = getSpawnChallengeHash e addr
                 in if latestBlockCommited = 0
                       \<or> hSecret \<noteq> poseidonPerm e [0, playerChallenge] then
                      (s, [Log ''Player already has enclave sig, or hSecret is inconsistent'',
                           Disconnect sid])
                    else
                      let s1 = s\<lparr>idToAddress := (idToAddress s)(sid \<mapsto> sender),
                                 addressToId := (addressToId s)(sender \<mapsto> sid)\<rparr>;
                          commitBlockHash = getBlockHash e latestBlockCommited;
                          n = length (tiles (board s1))
                      in if n = 0 then (s1, [Throw ''RangeError: Division by zero''])
                         else
                           let l = spawnLocation e playerChallenge commitBlockHash n;
                               prevT = getTile e (board s1) l;
                               spawnT = spawn e \<lparr>symbol = symb, address = addr\<rparr> l
                                          (START_RESOURCES e) (nextCityId s1);
                               s2 = s1\<lparr>nextCityId := Suc (nextCityId s1)\<rparr>;
                               s3 = s2\<lparr>claimedSpawns := (claimedSpawns s2)
                                          (addr \<mapsto> \<lparr>prevTile = prevT, spawnTile = spawnT\<rparr>)\<rparr>;
                               sig = signMessage e latestBlockCommited
                                       (hash e prevT) (hash e spawnT)
                           in (s3, [Send (Some sid)
                                      (SpawnSignatureResponse sig prevT spawnT)])))"

subsection \<open>getMoveSignature\<close>

text \<open>
  \<open>latestBlock < currentBlockHeight\<close> is false while \<open>currentBlockHeight\<close> is
  undefined. The handler awaits the signer before it answers and records the height; the
  model lets the signer answer at once.
\<close>

definition getMoveSignature ::
  "env \<Rightarrow> string \<Rightarrow> tileJSON \<Rightarrow> tileJSON \<Rightarrow> state \<Rightarrow> state \<times> effect list" where
  "getMoveSignature e sid uFromJ uToJ s =
     (case idToAddress s sid of
        None \<Rightarrow> (s, [Disconnect sid])
      | Some sender \<Rightarrow>
          if inRecoveryMode s \<or> \<not> truthy sender then (s, [Disconnect sid])
          else
            (case (playerLatestBlock s sender, currentBlockHeight s) of
               (Some latestBlock, Some h) \<Rightarrow>
                 if latestBlock < h \<and> jsonAddress uFromJ = sender then
                   let uFromAsTile = fromJSON uFromJ;
                       hUFrom = hash e uFromAsTile;
                       uToAsTile = fromJSON uToJ;
                       hUTo = hash e uToAsTile;
                       (encFrom, s1) = enqueueTile e uFromAsTile s;
                       (encTo, s2) = enqueueTile e uToAsTile s1;
                       s3 = s2\<lparr>claimedMoves := (claimedMoves s2)
                               (hUFrom @ hUTo \<mapsto>
                                  \<lparr>uFrom = uFromAsTile, uTo = uToAsTile, blockSubmitted = h,
                                   uFromEnc = encFrom, uToEnc = encTo\<rparr>)\<rparr>;
                       sig = signMessage e h hUFrom hUTo;
                       s4 = s3\<lparr>playerLatestBlock := (playerLatestBlock s3)(sender \<mapsto> h)\<rparr>;
                       (s5, sent) = dequeueTileIfDAConnected s4
                   in (s5, Send (Some sid) (MoveSignatureResponse sig h) # sent)
                 else (s, [Disconnect sid])
             | _ \<Rightarrow> (s, [Disconnect sid])))"

subsection \<open>decrypt\<close>

definition decrypt :: "env \<Rightarrow> string \<Rightarrow> location \<Rightarrow> state \<Rightarrow> state \<times> effect list" where
  "decrypt e sid l s =
     (case idToAddress s sid of
        None \<Rightarrow> (s, [Disconnect sid])
      | Some a \<Rightarrow>
          if inRecoveryMode s then (s, [Disconnect sid])
          else if noFog e (board s) l \<lparr>symbol = [], address = a\<rparr> then
            (s, [Send (Some sid) (DecryptResponse (getTile e (board s) l))])
          else (s, [Send (Some sid) (DecryptResponse (mystery e l))]))"

subsection \<open>onSpawnAttempt\<close>

definition onSpawnAttempt :: "env \<Rightarrow> string \<Rightarrow> bool \<Rightarrow> state \<Rightarrow> state \<times> effect list" where
  "onSpawnAttempt e pl success s =
     (if inRecoveryMode s then (s, [])
      else
        let claimed = claimedSpawns s pl;
            s1 = s\<lparr>claimedSpawns := (claimedSpawns s)(pl := None)\<rparr>;
            socketId = addressToId s1 pl;
            bound = (case socketId of None \<Rightarrow> False | Some i \<Rightarrow> truthy i)
        in (case claimed of
              Some sp \<Rightarrow>
                if success \<and> bound then
                  let s2 = s1\<lparr>board := setTile e (board s1) (spawnTile sp)\<rparr>;
                      s3 = s2\<lparr>playerLatestBlock := (playerLatestBlock s2)(pl \<mapsto> 0)\<rparr>;
                      (enc, s4) = enqueueTile e (spawnTile sp) s3;
                      (s5, sent) = dequeueTileIfDAConnected s4;
                      visibleLocs = getNearbyLocations e (board s5) (loc (spawnTile sp))
                  in (s5, sent @ [Send socketId (LoginResponse visibleLocs)])
                else if \<not> success then (s1, [Send socketId TrySpawn])
                else if bound then (s1, [Log (''Player '' @ pl @ '' spawned without a signature.'')])
                else (s1, [])
            | None \<Rightarrow>
                if \<not> success then (s1, [Send socketId TrySpawn])
                else if bound then (s1, [Log (''Player '' @ pl @ '' spawned without a signature.'')])
                else (s1, [])))"

subsection \<open>onMoveFinalize and alertPlayers\<close>

text \<open>
  \<open>alertPlayerMap\<close> is a \<open>Map\<close> from address to a \<open>Set\<close> of location strings, both in
  insertion order: a list of pairs with distinct keys. \<open>addTo k x m\<close> is
  \<open>m.get(k)?.add(x)\<close>, which does nothing when \<open>k\<close> has no entry.
\<close>

type_synonym alertMap = "(string \<times> location list) list"

fun addTo :: "string \<Rightarrow> location \<Rightarrow> alertMap \<Rightarrow> alertMap" where
  "addTo k x [] = []"
| "addTo k x ((k', v) # m) =
     (if k' = k then (k', add x v) # m else (k', v) # addTo k x m)"

definition alertStep ::
  "env \<Rightarrow> board \<Rightarrow> string \<Rightarrow> string \<Rightarrow> location \<Rightarrow> alertMap \<Rightarrow> location \<Rightarrow> alertMap" where
  "alertStep e bd newOwner prevOwner lc m l =
     (let tileOwner = address (owner (getTile e bd l));
          m1 = (if tileOwner \<in> fst ` set m then m else m @ [(tileOwner, [])])
      in addTo prevOwner l (addTo newOwner l (addTo tileOwner lc m1)))"

definition alertPlayerMap ::
  "env \<Rightarrow> board \<Rightarrow> string \<Rightarrow> string \<Rightarrow> location list \<Rightarrow> alertMap" where
  "alertPlayerMap e bd newOwner prevOwner updatedLocs =
     foldl (\<lambda>m lc. foldl (alertStep e bd newOwner prevOwner lc) m
                      (getNearbyLocations e bd lc))
       [] updatedLocs"

definition alertPlayers ::
  "env \<Rightarrow> string \<Rightarrow> string \<Rightarrow> location list \<Rightarrow> state \<Rightarrow> effect list" where
  "alertPlayers e newOwner prevOwner updatedLocs s =
     concat (map (\<lambda>(pubkey, tls).
                    case addressToId s pubkey of
                      None \<Rightarrow> []
                    | Some socketId \<Rightarrow>
                        if truthy socketId then [Send (Some socketId) (UpdateDisplay tls)]
                        else [])
               (alertPlayerMap e (board s) newOwner prevOwner updatedLocs))"

text \<open>The locations \<open>onMoveFinalize\<close> collects in \<open>updatedLocs\<close>, read from the board as
  it is before the move is committed.\<close>

definition updatedLocs :: "env \<Rightarrow> board \<Rightarrow> claimedMove \<Rightarrow> location list" where
  "updatedLocs e bd mv =
     (let tTo = getTile e bd (loc (uTo mv));
          newOwner = address (owner (uTo mv));
          prevOwner = address (owner tTo);
          ownershipChanged = (prevOwner \<noteq> newOwner)
      in loc (uFrom mv) #
         (if ownershipChanged \<and> isCapital e tTo then
            concat (map (cityLocs bd) (citiesOf bd prevOwner))
          else if ownershipChanged \<and> isCityCenter e tTo then cityLocs bd (cityId tTo)
          else [loc (uTo mv)]))"

definition onMoveFinalize :: "env \<Rightarrow> string \<Rightarrow> string \<Rightarrow> state \<Rightarrow> state \<times> effect list" where
  "onMoveFinalize e hUFrom hUTo s =
     (if inRecoveryMode s then (s, [])
      else
        let moveHash = hUFrom @ hUTo
        in (case claimedMoves s moveHash of
              None \<Rightarrow>
                (s, [Log (''Move: ('' @ hUFrom @ '', '' @ hUTo
                          @ '') was finalized without a signature.'')])
            | Some mv \<Rightarrow>
                let s1 = s\<lparr>claimedMoves := (claimedMoves s)(moveHash := None)\<rparr>;
                    tTo = getTile e (board s1) (loc (uTo mv));
                    newOwner = address (owner (uTo mv));
                    prevOwner = address (owner tTo);
                    locs = updatedLocs e (board s1) mv;
                    s2 = s1\<lparr>board := setTile e (setTile e (board s1) (uFrom mv)) (uTo mv)\<rparr>;
                    (encFrom, s3) = enqueueTile e (uFrom mv) s2;
                    (encTo, s4) = enqueueTile e (uTo mv) s3;
                    (s5, sent) = dequeueTileIfDAConnected s4
                in (s5, sent @ alertPlayers e newOwner prevOwner locs s5)))"

subsection \<open>New blocks and the expiry of claimed moves\<close>

definition upkeepClaimedMoves :: "env \<Rightarrow> state \<Rightarrow> state" where
  "upkeepClaimedMoves e s =
     (case currentBlockHeight s of
        None \<Rightarrow> s
      | Some h \<Rightarrow>
          s\<lparr>claimedMoves := (\<lambda>k.
               case claimedMoves s k of
                 None \<Rightarrow> None
               | Some c \<Rightarrow>
                   if h > blockSubmitted c + CLAIMED_MOVE_LIFE_SPAN e then None
                   else Some c)\<rparr>)"

text \<open>The handler of the provider's \<open>block\<close> event.\<close>

definition onBlock :: "env \<Rightarrow> int \<Rightarrow> state \<Rightarrow> state" where
  "onBlock e n s = upkeepClaimedMoves e (s\<lparr>currentBlockHeight := Some n\<rparr>)"

subsection \<open>The DA node: handshake, recovery, delivery\<close>

definition handshakeDA :: "string \<Rightarrow> state \<Rightarrow> state \<times> effect list" where
  "handshakeDA sid s =
     (if socketIdDA s = None then
        (s\<lparr>socketIdDA := Some sid\<rparr>,
         [Send (Some sid) (HandshakeDAResponse (inRecoveryMode s))])
      else (s, [Disconnect sid]))"

text \<open>The handler awaits the ledger's log of \<open>NewTile\<close> events; the model reads it at
  once. The log lines carry the index of the tile, which the model leaves out.\<close>

definition sendRecoveredTileResponse ::
  "env \<Rightarrow> string \<Rightarrow> encryptedTile \<Rightarrow> state \<Rightarrow> state \<times> effect list" where
  "sendRecoveredTileResponse e sid encTile s =
     (if socketIdDA s = None \<or> Some sid \<noteq> socketIdDA s then (s, [Disconnect sid])
      else if \<not> truthy (ciphertext encTile) \<or> \<not> truthy (iv encTile)
              \<or> \<not> truthy (tag encTile) then (s, [])
      else
        let recovered = decryptTile e (tileEncryptionKey s)
                          (ciphertext encTile) (iv encTile) (tag encTile);
            (s1, logged) =
              (case recovered of
                 None \<Rightarrow> (s, [Log ''Tile: failure''])
               | Some ti \<Rightarrow>
                   if hash e ti \<in> set (newTileHashes e) then
                     (if \<not> isSpawned e (board s) (owner ti) then
                        s\<lparr>board := boardSpawn e (board s) (loc ti) (owner ti)
                                      (START_RESOURCES e) (cityId ti),
                          nextCityId := Suc (nextCityId s)\<rparr>
                      else s\<lparr>board := setTile e (board s) ti\<rparr>,
                      [Log ''Tile: success''])
                   else (s, [Log ''Tile: failure'']));
            s2 = s1\<lparr>recoveryModeIndex := Suc (recoveryModeIndex s1)\<rparr>
        in (s2, logged @ [Send (socketIdDA s2) (SendRecoveredTile (recoveryModeIndex s2))]))"

definition saveToDatabaseResponse :: "string \<Rightarrow> state \<Rightarrow> state \<times> effect list" where
  "saveToDatabaseResponse sid s =
     (if socketIdDA s = None \<or> Some sid \<noteq> socketIdDA s then (s, [Disconnect sid])
      else dequeueTileIfDAConnected s)"

definition finishRecovery :: "string \<Rightarrow> state \<Rightarrow> state \<times> effect list" where
  "finishRecovery sid s =
     (if socketIdDA s = None \<or> Some sid \<noteq> socketIdDA s then (s, [Disconnect sid])
      else (s\<lparr>inRecoveryMode := False\<rparr>, [Log ''Recovery finished'']))"

subsection \<open>The event stream\<close>

text \<open>The events the server has a handler attached for, and their dispatch; a run
  processes events one after the other and collects what the handlers did.\<close>

datatype event =
    Login string string string
  | GetSpawnSignature string string string string string
  | GetMoveSignature string tileJSON tileJSON
  | Decrypt string location
  | Disconnecting string
  | HandshakeDA string
  | SendRecoveredTileResponse string encryptedTile
  | RecoveryFinished string
  | SaveToDatabaseResponse string
  | NewSpawnAttempt string bool
  | NewMove string string
  | Block int

fun dispatch :: "env \<Rightarrow> event \<Rightarrow> state \<Rightarrow> state \<times> effect list" where
  "dispatch e (Login sid addr sg) s = login e sid addr sg s"
| "dispatch e (GetSpawnSignature sid symb addr sg secret) s =
     getSpawnSignature e sid symb addr sg secret s"
| "dispatch e (GetMoveSignature sid uFromJ uToJ) s = getMoveSignature e sid uFromJ uToJ s"
| "dispatch e (Decrypt sid l) s = decrypt e sid l s"
| "dispatch e (Disconnecting sid) s = disconnect sid s"
| "dispatch e (HandshakeDA sid) s = handshakeDA sid s"
| "dispatch e (SendRecoveredTileResponse sid encTile) s =
     sendRecoveredTileResponse e sid encTile s"
| "dispatch e (RecoveryFinished sid) s = finishRecovery sid s"
| "dispatch e (SaveToDatabaseResponse sid) s = saveToDatabaseResponse sid s"
| "dispatch e (NewSpawnAttempt pl success) s = onSpawnAttempt e pl success s"
| "dispatch e (NewMove hUFrom hUTo) s = onMoveFinalize e hUFrom hUTo s"
| "dispatch e (Block n) s = (onBlock e n s, [])"

fun run :: "env \<Rightarrow> event list \<Rightarrow> state \<Rightarrow> state \<times> effect list" where
  "run e [] s = (s, [])"
| "run e (ev # evs) s =
     (case dispatch e ev s of
        (s1, out1) \<Rightarrow> (case run e evs s1 of (s2, out2) \<Rightarrow> (s2, out1 @ out2)))"

text \<open>
  The state when the server starts to listen: the module's initial values, the board as
  \<open>b.seed\<close> made it and the encryption key; outside recovery mode every tile of the
  seeded board is put on the backup queue.
\<close>

definition listen :: "env \<Rightarrow> bool \<Rightarrow> board \<Rightarrow> string \<Rightarrow> state" where
  "listen e recovery seeded key =
     (let s = \<lparr>inRecoveryMode = recovery, board = seeded, nextCityId = 1,
               idToAddress = Map.empty, addressToId = Map.empty,
               claimedMoves = Map.empty, claimedSpawns = Map.empty,
               currentBlockHeight = None, playerLatestBlock = Map.empty,
               tileEncryptionKey = key, socketIdDA = None, queuedTilesDA = [],
               recoveryModeIndex = 0, encryptions = 0\<rparr>
      in if recovery then s
         else foldl (\<lambda>s' ti. snd (enqueueTile e ti s')) s (concat (tiles seeded)))"

section \<open>Observations on a run\<close>

text \<open>The envelopes a list of effects delivered to the DA node, in order.\<close>

fun saved :: "effect list \<Rightarrow> encryptedTile list" where
  "saved [] = []"
| "saved (Send target (SaveToDatabase enc) # out) = enc # saved out"
| "saved (x # out) = saved out"

text \<open>The envelope \<open>enqueueTile\<close> makes of a tile when \<open>n\<close> encryptions were made
  before and the key is \<open>key\<close>.\<close>

definition envelope :: "env \<Rightarrow> string \<Rightarrow> tile \<Rightarrow> nat \<Rightarrow> encryptedTile" where
  "envelope e key ti n =
     (case encryptTile e key ti n of
        (ct, i, tg) \<Rightarrow> \<lparr>esymbol = symbol (owner ti), eaddress = address (owner ti),
                        ciphertext = ct, iv = i, tag = tg\<rparr>)"

text \<open>
  Modelled from the spec: \<open>Board.noFog\<close> is not in the sources; the visibility it is to
  decide is "true iff player owns that tile or any tile in its neighborhood", stated here
  over the board's own \<open>getTile\<close> and \<open>getNearbyLocations\<close>, a player being
  identified by the address.
\<close>

definition isVisible :: "env \<Rightarrow> board \<Rightarrow> location \<Rightarrow> player \<Rightarrow> bool" where
  "isVisible e bd l p =
     list_ex (\<lambda>l'. address (owner (getTile e bd l')) = address p)
       (l # getNearbyLocations e bd l)"

text \<open>The heights at which a list of effects answered a move proposal, with the
  connection answered.\<close>

definition moveResponses :: "effect list \<Rightarrow> (string option \<times> int) list" where
  "moveResponses out =
     concat (map (\<lambda>x. case x of
                         Send target (MoveSignatureResponse sg h) \<Rightarrow> [(target, h)]
                       | _ \<Rightarrow> []) out)"


text \<open>
  While the enclave recovers, no connection is bound to an address and nothing is
  claimed: \<open>login\<close>, \<open>getSpawnSignature\<close> and \<open>getMoveSignature\<close> refuse, and the
  server starts with empty tables.
\<close>

definition quietInRecovery :: "state \<Rightarrow> bool" where
  "quietInRecovery s =
     (inRecoveryMode s \<longrightarrow>
        idToAddress s = Map.empty \<and> addressToId s = Map.empty
        \<and> claimedSpawns s = Map.empty \<and> claimedMoves s = Map.empty)"

text \<open>A sequence of block events.\<close>

definition blocks :: "env \<Rightarrow> int list \<Rightarrow> state \<Rightarrow> state" where
  "blocks e ns s = foldl (\<lambda>s' n. onBlock e n s') s ns"

section \<open>A small instance of the game library\<close>

text \<open>
  The library functions behind \<open>env\<close> are not in the sources. To run the handlers on
  concrete inputs, this section gives one small implementation of them, written after the
  data model and the visibility rules of the specification. It serves the examples only;
  the general statements below hold for every \<open>env\<close>.
\<close>

text \<open>Modelled from the spec: the Board is a square grid of tiles; \<open>Board.inBounds\<close> is
  not in the sources.\<close>

definition inBounds0 :: "board \<Rightarrow> location \<Rightarrow> bool" where
  "inBounds0 bd l =
     (0 \<le> row l \<and> row l < int (length (tiles bd)) \<and>
      0 \<le> col l \<and> col l < int (length (tiles bd)))"

text \<open>Modelled from the spec: \<open>Board.getTile\<close> is not in the sources; it reads the
  grid at a location.\<close>

definition getTile0 :: "board \<Rightarrow> location \<Rightarrow> tile" where
  "getTile0 bd l = tiles bd ! nat (row l) ! nat (col l)"

text \<open>Modelled from the spec: \<open>Board.setTile\<close> is not in the sources; it writes the
  tile at the tile's own location (a tile's identity is its location). The derived
  indices are left as they are.\<close>

definition setTile0 :: "board \<Rightarrow> tile \<Rightarrow> board" where
  "setTile0 bd ti =
     bd\<lparr>tiles := (tiles bd)[nat (row (loc ti)) :=
                    (tiles bd ! nat (row (loc ti)))[nat (col (loc ti)) := ti]]\<rparr>"

text \<open>Modelled from the spec: \<open>Board.getNearbyLocations\<close> is not in the sources;
  \<open>nearby\<close> is the fixed-radius neighbourhood clipped to the board, here the 3x3
  square around the location.\<close>

definition getNearbyLocations0 :: "board \<Rightarrow> location \<Rightarrow> location list" where
  "getNearbyLocations0 bd l =
     filter (inBounds0 bd)
       (concat (map (\<lambda>dr. map (\<lambda>dc. \<lparr>row = row l + dr, col = col l + dc\<rparr>) [-1, 0, 1])
                  [-1, 0, 1]))"

text \<open>Modelled from the spec: \<open>Board.noFog\<close> is not in the sources; a location is
  visible to a player iff the player owns that tile or any tile in its neighbourhood.\<close>

definition noFog0 :: "board \<Rightarrow> location \<Rightarrow> player \<Rightarrow> bool" where
  "noFog0 bd l p =
     list_ex (\<lambda>l'. address (owner (getTile0 bd l')) = address p)
       (l # getNearbyLocations0 bd l)"

text \<open>Modelled from the spec: \<open>Board.isSpawned\<close> is not in the sources; a spawned
  player is one who owns a city.\<close>

definition isSpawned0 :: "board \<Rightarrow> player \<Rightarrow> bool" where
  "isSpawned0 bd p = (case playerCities bd (address p) of Some (c # cs) \<Rightarrow> True | _ \<Rightarrow> False)"

text \<open>Modelled from the spec: \<open>Tile.mystery\<close> is not in the sources; the sentinel
  carries only the location, under an owner that is no player.\<close>

definition mystery0 :: "location \<Rightarrow> tile" where
  "mystery0 l = \<lparr>owner = \<lparr>symbol = ''?'', address = ''0x?''\<rparr>, loc = l, resources = 0,
                 cityId = 0, terrain = 0\<rparr>"

text \<open>Modelled from the spec: \<open>Tile.spawn\<close> is not in the sources; the proposed tile
  is the player's capital (terrain 2 in this instance; 1 is a city center) with the
  starting resources.\<close>

definition spawn0 :: "player \<Rightarrow> location \<Rightarrow> int \<Rightarrow> nat \<Rightarrow> tile" where
  "spawn0 p l res cid = \<lparr>owner = p, loc = l, resources = res, cityId = cid, terrain = 2\<rparr>"

text \<open>Modelled from the spec: \<open>Tile.hash\<close> is not in the sources. This stand-in for
  the content hash spells out the owner's address and the position; the examples use no
  more of it than that it is a function of the tile.\<close>

definition hash0 :: "tile \<Rightarrow> string" where
  "hash0 ti =
     address (owner ti) @ replicate (nat (row (loc ti))) (CHR ''r'')
       @ replicate (nat (col (loc ti))) (CHR ''c'') @ ''.''"

text \<open>\<open>BigInt\<close> of a string of decimal digits.\<close>

definition digitOf :: "char \<Rightarrow> int option" where
  "digitOf ch =
     (if ch = CHR ''0'' then Some 0 else if ch = CHR ''1'' then Some 1
      else if ch = CHR ''2'' then Some 2 else if ch = CHR ''3'' then Some 3
      else if ch = CHR ''4'' then Some 4 else if ch = CHR ''5'' then Some 5
      else if ch = CHR ''6'' then Some 6 else if ch = CHR ''7'' then Some 7
      else if ch = CHR ''8'' then Some 8 else if ch = CHR ''9'' then Some 9
      else None)"

definition bigInt0 :: "string \<Rightarrow> int option" where
  "bigInt0 str =
     foldl (\<lambda>acc ch. case (acc, digitOf ch) of
                        (Some a, Some d) \<Rightarrow> Some (10 * a + d)
                      | _ \<Rightarrow> None)
       (Some 0) str"

text \<open>The instance. Its cryptography is a toy: the signature of an address is the
  address itself (and the string \<open>garbled\<close> does not parse), the permutation adds up
  its inputs, an envelope shows the key, the tile's hash and the number of the
  encryption.\<close>

definition env0 :: env where
  "env0 =
     \<lparr>hash = hash0,
      isCapital = (\<lambda>ti. terrain ti = 2),
      isCityCenter = (\<lambda>ti. terrain ti = 1 \<or> terrain ti = 2),
      mystery = mystery0,
      spawn = spawn0,
      getTile = getTile0,
      setTile = setTile0,
      getNearbyLocations = getNearbyLocations0,
      noFog = noFog0,
      isSpawned = isSpawned0,
      boardSpawn = (\<lambda>bd l p res cid. setTile0 bd (spawn0 p l res cid)),
      encryptTile = (\<lambda>key ti n. (key @ hash0 ti, replicate n (CHR ''i''), ''tag'')),
      decryptTile = (\<lambda>key ct i tg. None),
      poseidonPerm = (\<lambda>xs. nat \<bar>sum_list xs\<bar>),
      bigInt = bigInt0,
      verifyMessage = (\<lambda>msg sg. if sg = ''garbled'' then None else Some sg),
      signMessage = (\<lambda>h a b'. ''signed:'' @ a @ b'),
      getSpawnCommitment = (\<lambda>a. if a = ''0xC'' then 7 else 0),
      getSpawnChallengeHash = (\<lambda>a. 42),
      getBlockHash = (\<lambda>h. 1000 + h),
      newTileHashes = [],
      START_RESOURCES = 10,
      CLAIMED_MOVE_LIFE_SPAN = 5\<rparr>"

text \<open>
  A 2x2 board: player A's capital at (0,0), player B's capital at (0,1), the second row
  unowned; and a state of the enclave on this board at block height 100, nobody
  connected, nothing claimed.
\<close>

definition playerA :: player where "playerA = \<lparr>symbol = ''A'', address = ''0xA''\<rparr>"
definition playerB :: player where "playerB = \<lparr>symbol = ''B'', address = ''0xB''\<rparr>"
definition unowned :: player where "unowned = \<lparr>symbol = ''_'', address = ''0x0''\<rparr>"

definition at :: "int \<Rightarrow> int \<Rightarrow> location" where
  "at i j = \<lparr>row = i, col = j\<rparr>"

definition board0 :: board where
  "board0 =
     \<lparr>tiles =
        [[\<lparr>owner = playerA, loc = at 0 0, resources = 10, cityId = 1, terrain = 2\<rparr>,
          \<lparr>owner = playerB, loc = at 0 1, resources = 3, cityId = 2, terrain = 2\<rparr>],
         [\<lparr>owner = unowned, loc = at 1 0, resources = 0, cityId = 0, terrain = 0\<rparr>,
          \<lparr>owner = unowned, loc = at 1 1, resources = 0, cityId = 0, terrain = 0\<rparr>]],
      cityTiles = [1 \<mapsto> [at 0 0], 2 \<mapsto> [at 0 1]],
      playerCities = [''0xA'' \<mapsto> [1], ''0xB'' \<mapsto> [2]]\<rparr>"

definition state0 :: state where
  "state0 =
     \<lparr>inRecoveryMode = False, board = board0, nextCityId = 3,
      idToAddress = Map.empty, addressToId = Map.empty,
      claimedMoves = Map.empty, claimedSpawns = Map.empty,
      currentBlockHeight = Some 100, playerLatestBlock = Map.empty,
      tileEncryptionKey = ''k'', socketIdDA = None, queuedTilesDA = [],
      recoveryModeIndex = 0, encryptions = 0\<rparr>"

text \<open>Tiles of moves on this board: A leaves one unit at (0,0) and takes (1,0), or takes
  B's capital at (0,1).\<close>

definition fromTile :: tile where
  "fromTile = \<lparr>owner = playerA, loc = at 0 0, resources = 1, cityId = 1, terrain = 2\<rparr>"

definition toPlain :: tile where
  "toPlain = \<lparr>owner = playerA, loc = at 1 0, resources = 9, cityId = 1, terrain = 0\<rparr>"

definition toCapital :: tile where
  "toCapital = \<lparr>owner = playerA, loc = at 0 1, resources = 6, cityId = 2, terrain = 1\<rparr>"

definition claimOf :: "tile \<Rightarrow> tile \<Rightarrow> int \<Rightarrow> claimedMove" where
  "claimOf f g h =
     \<lparr>uFrom = f, uTo = g, blockSubmitted = h,
      uFromEnc = envelope env0 ''k'' f 0, uToEnc = envelope env0 ''k'' g 1\<rparr>"

subsection \<open>Scenarios on the small board\<close>

text \<open>A third player C, not yet on the board, and C's claimed spawn at (1,1).\<close>

definition playerC :: player where "playerC = \<lparr>symbol = ''C'', address = ''0xC''\<rparr>"

definition spawnClaim0 :: claimedSpawn where
  "spawnClaim0 =
     \<lparr>prevTile = \<lparr>owner = unowned, loc = at 1 1, resources = 0, cityId = 0, terrain = 0\<rparr>,
      spawnTile = spawn0 playerC (at 1 1) 10 3\<rparr>"

definition spawnPending :: state where
  "spawnPending = state0\<lparr>claimedSpawns := [''0xC'' \<mapsto> spawnClaim0]\<rparr>"

definition spawnPendingOnline :: state where
  "spawnPendingOnline =
     spawnPending\<lparr>idToAddress := [''sC'' \<mapsto> ''0xC''], addressToId := [''0xC'' \<mapsto> ''sC'']\<rparr>"

text \<open>C is connected as \<open>sC\<close> and has committed to spawn on the ledger.\<close>

definition spawnReady :: state where
  "spawnReady =
     state0\<lparr>idToAddress := [''sC'' \<mapsto> ''0xC''], addressToId := [''0xC'' \<mapsto> ''sC'']\<rparr>"

text \<open>A and B are connected as \<open>sA\<close> and \<open>sB\<close>; A has logged in and proposed no
  move yet.\<close>

definition online :: state where
  "online =
     state0\<lparr>idToAddress := [''sA'' \<mapsto> ''0xA'', ''sB'' \<mapsto> ''0xB''],
            addressToId := [''0xA'' \<mapsto> ''sA'', ''0xB'' \<mapsto> ''sB''],
            playerLatestBlock := [''0xA'' \<mapsto> 0, ''0xB'' \<mapsto> 0]\<rparr>"

definition fromJ :: tileJSON where
  "fromJ = \<lparr>jsonAddress = ''0xA'', fromJSON = fromTile\<rparr>"

definition toPlainJ :: tileJSON where
  "toPlainJ = \<lparr>jsonAddress = ''0xA'', fromJSON = toPlain\<rparr>"

definition toCapitalJ :: tileJSON where
  "toCapitalJ = \<lparr>jsonAddress = ''0xA'', fromJSON = toCapital\<rparr>"

text \<open>A's move onto B's capital and A's move onto the unowned tile, each claimed at
  height 100 and awaiting the ledger.\<close>

definition capitalClaimed :: state where
  "capitalClaimed =
     online\<lparr>claimedMoves :=
              [hash0 fromTile @ hash0 toCapital \<mapsto> claimOf fromTile toCapital 100],
            playerLatestBlock := [''0xA'' \<mapsto> 100, ''0xB'' \<mapsto> 0]\<rparr>"

definition plainClaimed :: state where
  "plainClaimed =
     state0\<lparr>claimedMoves := [hash0 fromTile @ hash0 toPlain \<mapsto> claimOf fromTile toPlain 100]\<rparr>"

text \<open>A logs in, proposes a move, drops the connection, logs in again and proposes
  again, all within block 100.\<close>

definition reloginEvents :: "event list" where
  "reloginEvents =
     [Login ''s1'' ''0xA'' ''0xA'',
      GetMoveSignature ''s1'' fromJ toPlainJ,
      Disconnecting ''s1'',
      Login ''s2'' ''0xA'' ''0xA'',
      GetMoveSignature ''s2'' fromJ toPlainJ]"

text \<open>The board of \<open>state0\<close>, with B's capital handed to A and nothing else changed.\<close>

definition foggedBoard :: board where
  "foggedBoard = setTile0 board0 toCapital"

section \<open>Properties of the handlers\<close>

subsection \<open>The backup queue\<close>

lemma enqueueTile_eq:
  "enqueueTile e ti s =
     (envelope e (tileEncryptionKey s) ti (encryptions s),
      s\<lparr>queuedTilesDA :=
           queuedTilesDA s @ [envelope e (tileEncryptionKey s) ti (encryptions s)],
        encryptions := Suc (encryptions s)\<rparr>)"
  by (simp add: enqueueTile_def envelope_def Let_def split: prod.splits)

lemma dequeue_frame [simp]:
  "board (fst (dequeueTileIfDAConnected s)) = board s"
  "claimedMoves (fst (dequeueTileIfDAConnected s)) = claimedMoves s"
  "claimedSpawns (fst (dequeueTileIfDAConnected s)) = claimedSpawns s"
  "playerLatestBlock (fst (dequeueTileIfDAConnected s)) = playerLatestBlock s"
  "idToAddress (fst (dequeueTileIfDAConnected s)) = idToAddress s"
  "addressToId (fst (dequeueTileIfDAConnected s)) = addressToId s"
  "inRecoveryMode (fst (dequeueTileIfDAConnected s)) = inRecoveryMode s"
  by (simp_all add: dequeueTileIfDAConnected_def split: option.splits list.splits)


lemma saved_append [simp]: "saved (xs @ ys) = saved xs @ saved ys"
  by (induction xs rule: saved.induct) simp_all

lemma saved_alertPlayers [simp]: "saved (alertPlayers e n p ls s) = []"
proof -
  have "saved (concat (map (\<lambda>(pubkey, tls).
                    case addressToId s pubkey of
                      None \<Rightarrow> []
                    | Some socketId \<Rightarrow>
                        if truthy socketId then [Send (Some socketId) (UpdateDisplay tls)]
                        else []) m)) = []" for m
    by (induction m) (auto split: option.splits)
  then show ?thesis by (simp add: alertPlayers_def)
qed

subsection \<open>Recovery mode\<close>

lemma dequeue_recovery:
  "dequeueTileIfDAConnected s = (s', out) \<Longrightarrow> inRecoveryMode s' = inRecoveryMode s"
  using dequeue_frame(7) [of s] by simp

lemma dispatch_quiet:
  assumes "quietInRecovery s"
  shows "quietInRecovery (fst (dispatch e ev s))"
proof (cases "inRecoveryMode s")
  case True
  with assms have empty: "idToAddress s = Map.empty" "addressToId s = Map.empty"
    "claimedSpawns s = Map.empty" "claimedMoves s = Map.empty"
    by (simp_all add: quietInRecovery_def)
  show ?thesis
  proof (cases ev)
    case (Block n)
    with True empty show ?thesis
      by (simp add: quietInRecovery_def onBlock_def upkeepClaimedMoves_def)
  next
    case (SendRecoveredTileResponse sid encTile)
    with True empty show ?thesis
      by (auto simp: quietInRecovery_def sendRecoveredTileResponse_def Let_def
          split: option.splits if_splits prod.splits)
  qed (use True empty in \<open>auto simp: quietInRecovery_def login_def getSpawnSignature_def
        getMoveSignature_def decrypt_def disconnect_def handshakeDA_def
        finishRecovery_def saveToDatabaseResponse_def onSpawnAttempt_def
        onMoveFinalize_def dequeueTileIfDAConnected_def
        split: option.splits list.splits\<close>)
next
  case False
  have "\<not> inRecoveryMode (fst (dispatch e ev s))"
  proof (cases ev)
    case (Block n)
    with False show ?thesis
      by (simp add: onBlock_def upkeepClaimedMoves_def)
  next
    case (SendRecoveredTileResponse sid encTile)
    with False show ?thesis
      by (auto simp: sendRecoveredTileResponse_def Let_def
          split: option.splits if_splits prod.splits)
  next
    case (GetSpawnSignature sid symb addr sg secret)
    with False show ?thesis
      by (auto simp: getSpawnSignature_def Let_def split: option.splits)
  next
    case (GetMoveSignature sid uFromJ uToJ)
    with False show ?thesis
      by (auto simp: getMoveSignature_def Let_def enqueueTile_eq
          split: option.splits prod.splits dest: dequeue_recovery)
  next
    case (NewSpawnAttempt pl success)
    with False show ?thesis
      by (auto simp: onSpawnAttempt_def Let_def enqueueTile_eq
          split: option.splits prod.splits dest: dequeue_recovery)
  next
    case (NewMove hUFrom hUTo)
    with False show ?thesis
      by (auto simp: onMoveFinalize_def Let_def enqueueTile_eq
          split: option.splits prod.splits dest: dequeue_recovery)
  qed (use False in \<open>auto simp: login_def decrypt_def disconnect_def handshakeDA_def
        finishRecovery_def saveToDatabaseResponse_def dequeueTileIfDAConnected_def Let_def
        split: option.splits list.splits\<close>)
  then show ?thesis by (simp add: quietInRecovery_def)
qed

text \<open>The server starts quiet, and every event leaves it so.\<close>

lemma enqueue_all_recovery:
  "inRecoveryMode (foldl (\<lambda>s' ti. snd (enqueueTile e ti s')) s ts) = inRecoveryMode s"
  by (induction ts arbitrary: s) (simp_all add: enqueueTile_eq)

lemma listen_quiet: "quietInRecovery (listen e recovery seeded key)"
  by (simp add: listen_def quietInRecovery_def Let_def enqueue_all_recovery)

lemma run_Cons_fst: "fst (run e (ev # evs) s) = fst (run e evs (fst (dispatch e ev s)))"
  by (simp split: prod.splits)

lemma run_quiet: "quietInRecovery s \<Longrightarrow> quietInRecovery (fst (run e evs s))"
proof (induction evs arbitrary: s)
  case Nil
  then show ?case by simp
next
  case (Cons ev evs)
  from Cons.IH [OF dispatch_quiet [OF Cons.prems, of e ev]]
  show ?case by (simp only: run_Cons_fst)
qed

subsection \<open>Finalization without a claim\<close>

text \<open>
  Claim C1, as the code has it: a move-finalized event for which no ClaimedMove is stored
  changes nothing at all. Outside recovery mode the handler logs the anomaly; it does not
  throw; the Board, the claim tables and the backup queue are what they were. The event
  carries two hashes and no tile, so there is nothing the handler could commit.
\<close>

theorem onMoveFinalize_without_claim:
  assumes "claimedMoves s (hUFrom @ hUTo) = None"
  shows "onMoveFinalize e hUFrom hUTo s =
           (s, if inRecoveryMode s then []
               else [Log (''Move: ('' @ hUFrom @ '', '' @ hUTo
                          @ '') was finalized without a signature.'')])"
  using assms by (simp add: onMoveFinalize_def)

theorem onMoveFinalize_without_claim_witness:
  "claimedMoves state0 (hash0 fromTile @ hash0 toPlain) = None
   \<and> onMoveFinalize env0 (hash0 fromTile) (hash0 toPlain) state0 =
       (state0, [Log ''Move: (0xA., 0xAr.) was finalized without a signature.''])"
proof -
  have none: "claimedMoves state0 (hash0 fromTile @ hash0 toPlain) = None"
    by (simp add: state0_def)
  have "\<not> inRecoveryMode state0" by (simp add: state0_def)
  moreover have "hash0 fromTile = ''0xA.''" "hash0 toPlain = ''0xAr.''"
    by (simp_all add: hash0_def fromTile_def toPlain_def playerA_def at_def)
  ultimately show ?thesis
    using none onMoveFinalize_without_claim [OF none, of env0] by simp
qed

text \<open>
  The claim as stated asks for the Board to be updated as if the claim had been there. On
  the small board, the event for A's move onto (1,0) leaves the Board as it is when the
  claim is missing, and changes it when the claim is stored.
\<close>

theorem onMoveFinalize_without_claim_counterexample:
  "board (fst (onMoveFinalize env0 (hash0 fromTile) (hash0 toPlain) state0)) = board0
   \<and> board (fst (onMoveFinalize env0 (hash0 fromTile) (hash0 toPlain) plainClaimed))
       \<noteq> board0"
proof -
  have "board (fst (onMoveFinalize env0 (hash0 fromTile) (hash0 toPlain) state0)) = board0"
    by (simp add: onMoveFinalize_def state0_def)
  moreover
  have "tiles (board (fst (onMoveFinalize env0 (hash0 fromTile) (hash0 toPlain) plainClaimed)))
          \<noteq> tiles board0"
    by code_simp
  then have "board (fst (onMoveFinalize env0 (hash0 fromTile) (hash0 toPlain) plainClaimed))
          \<noteq> board0"
    by auto
  ultimately show ?thesis by simp
qed

subsection \<open>Login\<close>



subsection \<open>Spawn attempts\<close>

text \<open>
  Claim C8: a spawn attempt resolved without success leaves the Board, with its grid and
  both derived indices, and the city counter untouched, and the session bound to the
  address is told to try again. (While the enclave recovers no session is bound and the
  handler returns at once.)
\<close>

theorem onSpawnAttempt_failure:
  assumes "quietInRecovery s" and "onSpawnAttempt e pl False s = (s', out)"
  shows "board s' = board s \<and> nextCityId s' = nextCityId s
         \<and> (\<forall>sid. addressToId s pl = Some sid \<longrightarrow> out = [Send (Some sid) TrySpawn])
         \<and> (\<not> inRecoveryMode s \<longrightarrow> out = [Send (addressToId s pl) TrySpawn])
         \<and> claimedSpawns s' pl = None"
  using assms
  by (auto simp: onSpawnAttempt_def quietInRecovery_def Let_def
      split: if_splits option.splits)

theorem onSpawnAttempt_failure_witness:
  "quietInRecovery spawnPendingOnline
   \<and> addressToId spawnPendingOnline ''0xC'' = Some ''sC''
   \<and> board (fst (onSpawnAttempt env0 ''0xC'' False spawnPendingOnline)) = board0
   \<and> snd (onSpawnAttempt env0 ''0xC'' False spawnPendingOnline)
       = [Send (Some ''sC'') TrySpawn]"
proof -
  have q: "quietInRecovery spawnPendingOnline"
    by (simp add: quietInRecovery_def spawnPendingOnline_def spawnPending_def state0_def)
  have b: "addressToId spawnPendingOnline ''0xC'' = Some ''sC''"
    and c: "board spawnPendingOnline = board0"
    by (simp_all add: spawnPendingOnline_def spawnPending_def state0_def)
  from onSpawnAttempt_failure [OF q prod.collapse [symmetric], of env0 "''0xC''"] q b c
  show ?thesis by simp
qed




subsection \<open>Move proposals\<close>

text \<open>When \<open>getMoveSignature\<close> accepts and when it refuses.\<close>

lemma getMoveSignature_accept:
  assumes "idToAddress s sid = Some sender" and "truthy sender" and "\<not> inRecoveryMode s"
    and "playerLatestBlock s sender = Some latestBlock" and "currentBlockHeight s = Some h"
    and "latestBlock < h" and "jsonAddress uFromJ = sender"
  shows "getMoveSignature e sid uFromJ uToJ s =
     (let f = fromJSON uFromJ; g = fromJSON uToJ;
          encFrom = envelope e (tileEncryptionKey s) f (encryptions s);
          encTo = envelope e (tileEncryptionKey s) g (Suc (encryptions s));
          s4 = s\<lparr>queuedTilesDA := queuedTilesDA s @ [encFrom, encTo],
                 encryptions := Suc (Suc (encryptions s)),
                 claimedMoves := (claimedMoves s)(hash e f @ hash e g \<mapsto>
                    \<lparr>uFrom = f, uTo = g, blockSubmitted = h,
                     uFromEnc = encFrom, uToEnc = encTo\<rparr>),
                 playerLatestBlock := (playerLatestBlock s)(sender \<mapsto> h)\<rparr>
      in (fst (dequeueTileIfDAConnected s4),
          Send (Some sid) (MoveSignatureResponse (signMessage e h (hash e f) (hash e g)) h)
            # snd (dequeueTileIfDAConnected s4)))"
  using assms
  by (simp add: getMoveSignature_def Let_def enqueueTile_eq split: prod.splits)

lemma getMoveSignature_reject:
  assumes "idToAddress s sid = None \<or> inRecoveryMode s
           \<or> (\<exists>sender. idToAddress s sid = Some sender \<and>
                 (\<not> truthy sender \<or> playerLatestBlock s sender = None
                  \<or> currentBlockHeight s = None
                  \<or> (\<exists>latestBlock h. playerLatestBlock s sender = Some latestBlock
                        \<and> currentBlockHeight s = Some h \<and> h \<le> latestBlock)
                  \<or> jsonAddress uFromJ \<noteq> sender))"
  shows "getMoveSignature e sid uFromJ uToJ s = (s, [Disconnect sid])"
  using assms
  by (auto simp: getMoveSignature_def Let_def split: prod.splits option.splits)

text \<open>A login of a spawned player binds the connection and sets the height recorded
  for the address to 0, whatever it was.\<close>

lemma login_resets_latest_block:
  assumes "\<not> inRecoveryMode s" and "addressToId s addr = None"
    and "verifyMessage e sid sg = Some addr" and "truthy addr"
    and "isSpawned e (board s) \<lparr>symbol = [], address = addr\<rparr>"
  shows "playerLatestBlock (fst (login e sid addr sg s)) addr = Some 0
         \<and> idToAddress (fst (login e sid addr sg s)) sid = Some addr"
  using assms by (simp add: login_def Let_def)

text \<open>
  Claim C2. A proposal is refused, with the connection cut and no claim recorded, when
  the height recorded for the address is not below the current height, and an accepted
  proposal records the current height (\<open>getMoveSignature_reject\<close> and
  \<open>getMoveSignature_accept\<close>). The recorded height is not the height of the
  address's last accepted proposal for good, though: a login of a spawned player and a
  successful spawn store 0 in its place. In the run below, all at
  block height 100, A logs in, has a proposal accepted, drops the connection, logs in
  again and has a second proposal accepted.
\<close>

theorem rate_limit_reset_by_login:
  "moveResponses (snd (run env0 reloginEvents state0))
     = [(Some ''s1'', 100), (Some ''s2'', 100)]
   \<and> idToAddress (fst (run env0 (take 2 reloginEvents) state0)) ''s1'' = Some ''0xA''
   \<and> playerLatestBlock (fst (run env0 (take 2 reloginEvents) state0)) ''0xA'' = Some 100
   \<and> playerLatestBlock (fst (run env0 (take 4 reloginEvents) state0)) ''0xA'' = Some 0
   \<and> idToAddress (fst (run env0 reloginEvents state0)) ''s2'' = Some ''0xA''
   \<and> currentBlockHeight (fst (run env0 reloginEvents state0)) = Some 100"
  by code_simp

subsection \<open>Expiry of claimed moves\<close>

lemma onBlock_claimedMoves:
  "claimedMoves (onBlock e n s) k =
     (case claimedMoves s k of
        None \<Rightarrow> None
      | Some c \<Rightarrow> if n > blockSubmitted c + CLAIMED_MOVE_LIFE_SPAN e then None else Some c)"
  by (simp add: onBlock_def upkeepClaimedMoves_def)

lemma onBlock_frame:
  "inRecoveryMode (onBlock e n s) = inRecoveryMode s"
  "idToAddress (onBlock e n s) = idToAddress s"
  "playerLatestBlock (onBlock e n s) = playerLatestBlock s"
  "currentBlockHeight (onBlock e n s) = Some n"
  by (simp_all add: onBlock_def upkeepClaimedMoves_def)

lemma blocks_Nil: "blocks e [] s = s"
  by (simp add: blocks_def)

lemma blocks_Cons: "blocks e (n # ns) s = blocks e ns (onBlock e n s)"
  by (simp add: blocks_def)

lemma blocks_snoc: "blocks e (ns @ [n]) s = onBlock e n (blocks e ns s)"
  by (simp add: blocks_def)

text \<open>A claim survives a sequence of sweeps unless one of them ran at a height more than
  the life span above the height of the proposal.\<close>

lemma blocks_claimedMoves:
  "claimedMoves (blocks e ns s) k =
     (case claimedMoves s k of
        None \<Rightarrow> None
      | Some c \<Rightarrow>
          if \<exists>n \<in> set ns. n > blockSubmitted c + CLAIMED_MOVE_LIFE_SPAN e then None
          else Some c)"
proof (induction ns arbitrary: s)
  case Nil
  show ?case by (simp add: blocks_Nil split: option.splits)
next
  case (Cons n ns)
  show ?case
    by (simp add: blocks_Cons Cons.IH onBlock_claimedMoves split: option.splits)
qed

lemma blocks_frame:
  "inRecoveryMode (blocks e ns s) = inRecoveryMode s"
  "idToAddress (blocks e ns s) = idToAddress s"
  "playerLatestBlock (blocks e ns s) = playerLatestBlock s"
  by (induction ns arbitrary: s) (simp_all add: blocks_Nil blocks_Cons onBlock_frame)

lemma blocks_height: "currentBlockHeight (blocks e (ns @ [n]) s) = Some n"
  by (simp add: blocks_snoc onBlock_frame)

lemma upto_snoc: "i \<le> j + 1 \<Longrightarrow> [i..j + 1] = [i..j] @ [j + 1]"
  using upto_rec2 [of i "j + 1"] by simp

text \<open>
  Claim C3: a ClaimedMove proposed at height \<open>H\<close>, with a life span \<open>L\<close> and never
  finalized, is still in the claim table after the sweeps of the blocks \<open>H+1\<close> to
  \<open>H+L\<close> and is gone after the sweep of block \<open>H+L+1\<close>. A proposal for the same pair
  of tiles by their logged-in owner, whose recorded height is at most \<open>H+L\<close>, is then
  accepted: it is answered with a signature for height \<open>H+L+1\<close> and a fresh claim is
  stored under the same key.
\<close>

theorem claimedMove_expiry:
  assumes "claimedMoves s k = Some c" and "0 \<le> CLAIMED_MOVE_LIFE_SPAN e"
    and "H = blockSubmitted c" and "L = CLAIMED_MOVE_LIFE_SPAN e"
    and "idToAddress s sid = Some sender" and "truthy sender" and "\<not> inRecoveryMode s"
    and "playerLatestBlock s sender = Some latestBlock" and "latestBlock \<le> H + L"
    and "jsonAddress uFromJ = sender"
    and "hash e (fromJSON uFromJ) @ hash e (fromJSON uToJ) = k"
    and "getMoveSignature e sid uFromJ uToJ (blocks e [H + 1..H + L + 1] s) = (s', out)"
  shows "claimedMoves (blocks e [H + 1..H + L] s) k = Some c
         \<and> claimedMoves (blocks e [H + 1..H + L + 1] s) k = None
         \<and> hd out = Send (Some sid) (MoveSignatureResponse
               (signMessage e (H + L + 1) (hash e (fromJSON uFromJ)) (hash e (fromJSON uToJ)))
               (H + L + 1))
         \<and> map_option (\<lambda>c'. (uFrom c', uTo c', blockSubmitted c')) (claimedMoves s' k)
             = Some (fromJSON uFromJ, fromJSON uToJ, H + L + 1)"
proof -
  let ?s1 = "blocks e [H + 1..H + L + 1] s"
  have present: "claimedMoves (blocks e [H + 1..H + L] s) k = Some c"
    using assms(1,3,4) by (simp add: blocks_claimedMoves)
  have "H + L + 1 \<in> set [H + 1..H + L + 1]" using assms(2,4) by simp
  then have "\<exists>n \<in> set [H + 1..H + L + 1]. n > blockSubmitted c + CLAIMED_MOVE_LIFE_SPAN e"
    using assms(3,4) by (intro bexI [of _ "H + L + 1"]) simp_all
  then have absent: "claimedMoves ?s1 k = None"
    using assms(1) by (simp add: blocks_claimedMoves)
  have split: "[H + 1..H + L + 1] = [H + 1..H + L] @ [H + L + 1]"
    using assms(2,4) by (intro upto_snoc) simp
  have height: "currentBlockHeight ?s1 = Some (H + L + 1)"
    unfolding split by (rule blocks_height)
  have pre: "idToAddress ?s1 sid = Some sender" "\<not> inRecoveryMode ?s1"
    "playerLatestBlock ?s1 sender = Some latestBlock"
    using assms(5,7,8) by (simp_all add: blocks_frame)
  have lt: "latestBlock < H + L + 1" using assms(9) by simp
  note acc = getMoveSignature_accept [OF pre(1) assms(6) pre(2) pre(3) height lt assms(10)]
  from assms(12) have "hd out = Send (Some sid) (MoveSignatureResponse
               (signMessage e (H + L + 1) (hash e (fromJSON uFromJ)) (hash e (fromJSON uToJ)))
               (H + L + 1))"
    and "map_option (\<lambda>c'. (uFrom c', uTo c', blockSubmitted c')) (claimedMoves s' k)
             = Some (fromJSON uFromJ, fromJSON uToJ, H + L + 1)"
    unfolding acc using assms(11) by (auto simp: Let_def)
  with present absent show ?thesis by simp
qed

text \<open>The scenario of the specification: A's move from (0,0) to (0,1), proposed at
  height 100 with a life span of 5, is there at height 105 and gone at height 106, where
  A proposes it again and is answered.\<close>

theorem claimedMove_expiry_witness:
  "claimedMoves capitalClaimed (hash0 fromTile @ hash0 toCapital)
     = Some (claimOf fromTile toCapital 100)
   \<and> claimedMoves (blocks env0 [101..105] capitalClaimed) (hash0 fromTile @ hash0 toCapital)
     = Some (claimOf fromTile toCapital 100)
   \<and> claimedMoves (blocks env0 [101..106] capitalClaimed) (hash0 fromTile @ hash0 toCapital)
     = None
   \<and> moveResponses
       (snd (getMoveSignature env0 ''sA'' fromJ toCapitalJ (blocks env0 [101..106] capitalClaimed)))
     = [(Some ''sA'', 106)]
   \<and> map_option blockSubmitted
       (claimedMoves
          (fst (getMoveSignature env0 ''sA'' fromJ toCapitalJ
                  (blocks env0 [101..106] capitalClaimed)))
          (hash0 fromTile @ hash0 toCapital))
     = Some 106"
proof -
  let ?k = "hash0 fromTile @ hash0 toCapital"
  have h1: "claimedMoves capitalClaimed ?k = Some (claimOf fromTile toCapital 100)"
    by (simp add: capitalClaimed_def online_def state0_def)
  have h2: "0 \<le> CLAIMED_MOVE_LIFE_SPAN env0" by (simp add: env0_def)
  have h3: "100 = blockSubmitted (claimOf fromTile toCapital 100)" by (simp add: claimOf_def)
  have h4: "5 = CLAIMED_MOVE_LIFE_SPAN env0" by (simp add: env0_def)
  have h5: "idToAddress capitalClaimed ''sA'' = Some ''0xA''"
    and h7: "\<not> inRecoveryMode capitalClaimed"
    and h8: "playerLatestBlock capitalClaimed ''0xA'' = Some 100"
    by (simp_all add: capitalClaimed_def online_def state0_def)
  have h6: "truthy ''0xA''" by (simp add: truthy_def)
  have h9: "(100::int) \<le> 100 + 5" by simp
  have h10: "jsonAddress fromJ = ''0xA''" by (simp add: fromJ_def)
  have h11: "hash env0 (fromJSON fromJ) @ hash env0 (fromJSON toCapitalJ) = ?k"
    by (simp add: env0_def fromJ_def toCapitalJ_def)
  note t = claimedMove_expiry [OF h1 h2 h3 h4 h5 h6 h7 h8 h9 h10 h11 prod.collapse [symmetric]]
  have resp: "moveResponses
       (snd (getMoveSignature env0 ''sA'' fromJ toCapitalJ (blocks env0 [101..106] capitalClaimed)))
     = [(Some ''sA'', 106)]"
    by code_simp
  from t h1 resp show ?thesis by auto
qed

subsection \<open>The spawn location\<close>

text \<open>
  Claim C5: when \<open>getSpawnSignature\<close> answers, the tile it snapshots and the tile it
  proposes are both at the location whose row is the first word of the permutation of
  (0, secret, block hash, 0) modulo the size of the grid and whose column is that of
  (0, secret, block hash, 1), the block hash being the one at the height of the
  player's commitment. The location depends on nothing else: not on the connection, the
  symbol, the tables or the content of the board.
\<close>

theorem spawn_location_from_secret_and_blockhash:
  assumes "idToAddress s sid = Some sender" and "truthy sender" and "\<not> inRecoveryMode s"
    and "claimedSpawns s sender = None" and "claimedSpawns s addr = None"
    and "bigInt e playerSecret = Some playerChallenge"
    and "getSpawnCommitment e addr \<noteq> 0"
    and "getSpawnChallengeHash e addr = poseidonPerm e [0, playerChallenge]"
    and "tiles (board s) \<noteq> []"
    and "blockhash = getBlockHash e (getSpawnCommitment e addr)"
    and "l = \<lparr>row = int (poseidonPerm e [0, playerChallenge, blockhash, 0]
                        mod length (tiles (board s))),
               col = int (poseidonPerm e [0, playerChallenge, blockhash, 1]
                        mod length (tiles (board s)))\<rparr>"
    and "getSpawnSignature e sid symb addr sg playerSecret s = (s', out)"
  shows "claimedSpawns s' addr =
           Some \<lparr>prevTile = getTile e (board s) l,
                 spawnTile = spawn e \<lparr>symbol = symb, address = addr\<rparr> l
                               (START_RESOURCES e) (nextCityId s)\<rparr>
         \<and> out = [Send (Some sid) (SpawnSignatureResponse
                    (signMessage e (getSpawnCommitment e addr)
                       (hash e (getTile e (board s) l))
                       (hash e (spawn e \<lparr>symbol = symb, address = addr\<rparr> l
                                  (START_RESOURCES e) (nextCityId s))))
                    (getTile e (board s) l)
                    (spawn e \<lparr>symbol = symb, address = addr\<rparr> l
                       (START_RESOURCES e) (nextCityId s)))]"
  using assms
  by (auto simp: getSpawnSignature_def spawnLocation_def Let_def)

text \<open>C, with the secret 42 and a commitment at height 7 (block hash 1007), on the
  2x2 board: row (42 + 1007 + 0) mod 2 = 1, column (42 + 1007 + 1) mod 2 = 0.\<close>

theorem spawn_location_from_secret_and_blockhash_witness:
  "idToAddress spawnReady ''sC'' = Some ''0xC'' \<and> truthy ''0xC''
   \<and> \<not> inRecoveryMode spawnReady \<and> claimedSpawns spawnReady ''0xC'' = None
   \<and> bigInt env0 ''42'' = Some 42 \<and> getSpawnCommitment env0 ''0xC'' = 7
   \<and> getSpawnChallengeHash env0 ''0xC'' = poseidonPerm env0 [0, 42]
   \<and> getBlockHash env0 7 = 1007
   \<and> claimedSpawns (fst (getSpawnSignature env0 ''sC'' ''C'' ''0xC'' ''sig'' ''42'' spawnReady))
        ''0xC''
      = Some \<lparr>prevTile = getTile0 board0 (at 1 0),
              spawnTile = spawn0 playerC (at 1 0) 10 3\<rparr>"
proof -
  have h1: "idToAddress spawnReady ''sC'' = Some ''0xC''"
    and h3: "\<not> inRecoveryMode spawnReady"
    and h4: "claimedSpawns spawnReady ''0xC'' = None"
    and h9: "tiles (board spawnReady) \<noteq> []"
    by (simp_all add: spawnReady_def state0_def board0_def)
  have h2: "truthy ''0xC''" by (simp add: truthy_def)
  have h6: "bigInt env0 ''42'' = Some 42" by code_simp
  have c7: "getSpawnCommitment env0 ''0xC'' = 7" by (simp add: env0_def)
  then have h7: "getSpawnCommitment env0 ''0xC'' \<noteq> 0" by simp
  have h8: "getSpawnChallengeHash env0 ''0xC'' = poseidonPerm env0 [0, 42]"
    by (simp add: env0_def)
  have h10: "1007 = getBlockHash env0 (getSpawnCommitment env0 ''0xC'')"
    by (simp add: env0_def)
  have h11: "at 1 0 = \<lparr>row = int (poseidonPerm env0 [0, 42, 1007, 0]
                              mod length (tiles (board spawnReady))),
                       col = int (poseidonPerm env0 [0, 42, 1007, 1]
                              mod length (tiles (board spawnReady)))\<rparr>"
    by code_simp
  have inst: "getTile env0 = getTile0" "spawn env0 = spawn0" "START_RESOURCES env0 = 10"
    "board spawnReady = board0" "nextCityId spawnReady = 3"
    "\<lparr>symbol = ''C'', address = ''0xC''\<rparr> = playerC"
    by (simp_all add: env0_def spawnReady_def state0_def playerC_def)
  note t = spawn_location_from_secret_and_blockhash
    [OF h1 h2 h3 h4 h4 h6 h7 h8 h9 h10 h11 prod.collapse [symmetric],
     of "''C''" "''sig''"]
  from t h1 h2 h3 h4 h6 c7 h8 h10 inst show ?thesis by simp
qed

subsection \<open>Decryption under fog of war\<close>

text \<open>
  Claim C6, for a board whose \<open>noFog\<close> decides the visibility of the data model (the
  player owns the tile or a tile of its neighbourhood): a logged-in player who asks for a
  location is sent the true tile there if the location is visible to the player, and the
  sentinel \<open>Tile.mystery(l)\<close> otherwise, so the answer is the true tile exactly when
  the location is visible (no true tile being the sentinel itself). The sentinel is made
  from the location alone: where the location is hidden, the answer is the same whatever
  the Board holds there.
\<close>

theorem decrypt_masks_invisible_tiles:
  assumes "quietInRecovery s" and "idToAddress s sid = Some a"
    and "p = \<lparr>symbol = [], address = a\<rparr>"
    and "noFog e (board s) l p = isVisible e (board s) l p"
    and "quietInRecovery s2" and "idToAddress s2 sid = Some a"
    and "noFog e (board s2) l p = isVisible e (board s2) l p"
  shows "decrypt e sid l s =
           (s, [Send (Some sid) (DecryptResponse
                  (if isVisible e (board s) l p then getTile e (board s) l
                   else mystery e l))])
         \<and> (getTile e (board s) l \<noteq> mystery e l \<longrightarrow>
              (snd (decrypt e sid l s)
                 = [Send (Some sid) (DecryptResponse (getTile e (board s) l))]
               \<longleftrightarrow> isVisible e (board s) l p))
         \<and> (\<not> isVisible e (board s) l p \<and> \<not> isVisible e (board s2) l p \<longrightarrow>
              snd (decrypt e sid l s2) = snd (decrypt e sid l s))"
proof -
  from assms(1,2,5,6) have "\<not> inRecoveryMode s" "\<not> inRecoveryMode s2"
    by (auto simp: quietInRecovery_def)
  with assms(2,3,4,6,7) show ?thesis
    by (simp add: decrypt_def)
qed

text \<open>C owns nothing on the small board: B's capital at (0,1) is hidden from C, and C is
  sent the same sentinel when that tile has passed to A. A, next to it, is sent the
  tile.\<close>

theorem decrypt_masks_invisible_tiles_witness:
  "quietInRecovery spawnReady \<and> idToAddress spawnReady ''sC'' = Some ''0xC''
   \<and> \<not> isVisible env0 board0 (at 0 1) \<lparr>symbol = [], address = ''0xC''\<rparr>
   \<and> getTile env0 board0 (at 0 1) \<noteq> getTile env0 foggedBoard (at 0 1)
   \<and> snd (decrypt env0 ''sC'' (at 0 1) spawnReady)
       = [Send (Some ''sC'') (DecryptResponse (mystery0 (at 0 1)))]
   \<and> snd (decrypt env0 ''sC'' (at 0 1) (spawnReady\<lparr>board := foggedBoard\<rparr>))
       = [Send (Some ''sC'') (DecryptResponse (mystery0 (at 0 1)))]
   \<and> snd (decrypt env0 ''sA'' (at 0 1) online)
       = [Send (Some ''sA'') (DecryptResponse (getTile0 board0 (at 0 1)))]"
proof -
  let ?c = "\<lparr>symbol = [], address = ''0xC''\<rparr>"
  let ?a = "\<lparr>symbol = [], address = ''0xA''\<rparr>"
  let ?s2 = "spawnReady\<lparr>board := foggedBoard\<rparr>"
  have q: "quietInRecovery spawnReady" "quietInRecovery ?s2" "quietInRecovery online"
    by (simp_all add: quietInRecovery_def spawnReady_def online_def state0_def)
  have i: "idToAddress spawnReady ''sC'' = Some ''0xC''"
    "idToAddress ?s2 ''sC'' = Some ''0xC''" "idToAddress online ''sA'' = Some ''0xA''"
    by (simp_all add: spawnReady_def online_def state0_def)
  have b: "board spawnReady = board0" "board ?s2 = foggedBoard" "board online = board0"
    by (simp_all add: spawnReady_def online_def state0_def)
  have n: "noFog env0 board0 (at 0 1) ?c = isVisible env0 board0 (at 0 1) ?c"
    "noFog env0 foggedBoard (at 0 1) ?c = isVisible env0 foggedBoard (at 0 1) ?c"
    "noFog env0 board0 (at 0 1) ?a = isVisible env0 board0 (at 0 1) ?a"
    by (simp_all add: env0_def noFog0_def isVisible_def)
  have v: "\<not> isVisible env0 board0 (at 0 1) ?c" "\<not> isVisible env0 foggedBoard (at 0 1) ?c"
    "isVisible env0 board0 (at 0 1) ?a"
    by code_simp+
  have d: "getTile env0 board0 (at 0 1) \<noteq> getTile env0 foggedBoard (at 0 1)"
    by code_simp
  have m: "mystery env0 = mystery0" "getTile env0 = getTile0" by (simp_all add: env0_def)
  note t1 = decrypt_masks_invisible_tiles [of spawnReady "''sC''" "''0xC''" ?c env0 "at 0 1" ?s2,
      OF q(1) i(1) refl _ q(2) i(2)]
  note t2 = decrypt_masks_invisible_tiles [of online "''sA''" "''0xA''" ?a env0 "at 0 1" online,
      OF q(3) i(3) refl _ q(3) i(3)]
  from t1 t2 q i b n v d m show ?thesis by simp
qed

subsection \<open>Backups of a move\<close>




subsection \<open>Finalized moves: affected locations and alerts\<close>

lemma add_mem [simp]: "x \<in> set (add x xs)" "y \<in> set xs \<Longrightarrow> y \<in> set (add x xs)"
  by (simp_all add: add_def)
















end
